theory Spec2Isabelle
  imports Main "HOL-Library.Word" "HOL-Library.Multiset"
begin

section \<open>The AWS Batch job queue resource\<close>

text \<open>
  A shallow embedding of \<^verbatim>\<open>aws/resource_aws_batch_job_queue.go\<close>: the four lifecycle
  functions of the resource, their helpers, and the parts of the plugin framework and of
  the Batch client that they call. A Go \<^verbatim>\<open>interface{}\<close> is a value of type \<open>val\<close>, a
  pointer field is an \<open>option\<close>, a Go \<^verbatim>\<open>error\<close> is a value of type \<open>error\<close>, and a
  run-time panic is a result of its own.
\<close>

subsection \<open>Dynamic values, errors and results\<close>

text \<open>
  The dynamic type of an \<^verbatim>\<open>interface{}\<close>. \<open>VInt\<close> is Go's \<^verbatim>\<open>int\<close>, the representation
  of a \<^verbatim>\<open>schema.TypeInt\<close> attribute; \<open>VInt64\<close> is \<^verbatim>\<open>int64\<close>. They are different
  dynamic types: a type assertion to one fails on the other.
\<close>

datatype val =
    VNil
  | VInt int
  | VInt64 "64 word"
  | VString string
  | VList "val list"
  | VMap "(string \<times> val) list"

datatype error =
    ApiError string
  | TimeoutError
  | UnexpectedStateError string
  | InvalidAddress string
  | Errorf string "errarg list"
and errarg =
    ArgString string
  | ArgError error

datatype panic =
    InterfaceConversion string val
  | NilDereference

datatype 'a result =
    Ok 'a
  | Fail error
  | Panic panic

definition andThen :: "'a result \<Rightarrow> ('a \<Rightarrow> 'b result) \<Rightarrow> 'b result" where
  "andThen r f = (case r of Ok x \<Rightarrow> f x | Fail e \<Rightarrow> Fail e | Panic p \<Rightarrow> Panic p)"

text \<open>The type assertions \<^verbatim>\<open>v.(T)\<close> of the source; each panics on any other dynamic type.\<close>

fun assertInt :: "val \<Rightarrow> int result" where
  "assertInt (VInt n) = Ok n"
| "assertInt v = Panic (InterfaceConversion ''int'' v)"

fun assertInt64 :: "val \<Rightarrow> 64 word result" where
  "assertInt64 (VInt64 n) = Ok n"
| "assertInt64 v = Panic (InterfaceConversion ''int64'' v)"

fun assertString :: "val \<Rightarrow> string result" where
  "assertString (VString s) = Ok s"
| "assertString v = Panic (InterfaceConversion ''string'' v)"

fun assertList :: "val \<Rightarrow> val list result" where
  "assertList (VList xs) = Ok xs"
| "assertList v = Panic (InterfaceConversion ''[]interface {}'' v)"

fun assertMap :: "val \<Rightarrow> (string \<times> val) list result" where
  "assertMap (VMap m) = Ok m"
| "assertMap v = Panic (InterfaceConversion ''map[string]interface {}'' v)"

text \<open>Indexing a Go map: a missing key reads as the nil interface.\<close>

definition index :: "(string \<times> val) list \<Rightarrow> string \<Rightarrow> val" where
  "index m k = (case map_of m k of None \<Rightarrow> VNil | Some v \<Rightarrow> v)"

text \<open>\<^verbatim>\<open>aws.StringValue\<close>, \<^verbatim>\<open>aws.Int64Value\<close>: the pointee, or the zero value for nil.\<close>

definition StringValue :: "string option \<Rightarrow> string" where
  "StringValue p = (case p of None \<Rightarrow> [] | Some s \<Rightarrow> s)"

definition Int64Value :: "64 word option \<Rightarrow> 64 word" where
  "Int64Value p = (case p of None \<Rightarrow> 0 | Some n \<Rightarrow> n)"

text \<open>The conversion \<^verbatim>\<open>int64(n)\<close> of a Go \<^verbatim>\<open>int\<close>.\<close>

definition int64 :: "int \<Rightarrow> 64 word" where
  "int64 n = word_of_int n"

subsection \<open>The Batch API types\<close>

record ComputeEnvironmentOrder =
  ceo_Order :: "64 word option"
  ceo_ComputeEnvironment :: "string option"

type_synonym tags = "(string \<times> string) list"

record JobQueueDetail =
  jqd_ComputeEnvironmentOrder :: "ComputeEnvironmentOrder list"
  jqd_JobQueueArn :: "string option"
  jqd_JobQueueName :: "string option"
  jqd_Priority :: "64 word option"
  jqd_State :: "string option"
  jqd_Status :: "string option"
  jqd_Tags :: tags

record CreateJobQueueInput =
  cjq_ComputeEnvironmentOrder :: "ComputeEnvironmentOrder list"
  cjq_JobQueueName :: "string option"
  cjq_Priority :: "64 word option"
  cjq_State :: "string option"
  cjq_Tags :: "tags option"

record UpdateJobQueueInput =
  ujq_ComputeEnvironmentOrder :: "ComputeEnvironmentOrder list"
  ujq_JobQueue :: "string option"
  ujq_Priority :: "64 word option"
  ujq_State :: "string option"

text \<open>The constants of package \<^verbatim>\<open>batch\<close> that the file uses.\<close>

definition JQStateDisabled :: string where "JQStateDisabled = ''DISABLED''"
definition JQStateEnabled :: string where "JQStateEnabled = ''ENABLED''"
definition JQStatusCreating :: string where "JQStatusCreating = ''CREATING''"
definition JQStatusUpdating :: string where "JQStatusUpdating = ''UPDATING''"
definition JQStatusDeleting :: string where "JQStatusDeleting = ''DELETING''"
definition JQStatusDeleted :: string where "JQStatusDeleted = ''DELETED''"
definition JQStatusValid :: string where "JQStatusValid = ''VALID''"
definition JQStatusInvalid :: string where "JQStatusInvalid = ''INVALID''"

text \<open>Every lifecycle status the API reports.\<close>

definition JQStatus_values :: "string list" where
  "JQStatus_values =
     [JQStatusCreating, JQStatusUpdating, JQStatusDeleting, JQStatusDeleted,
      JQStatusValid, JQStatusInvalid]"

subsection \<open>createComputeEnvironmentOrder\<close>

text \<open>
  The loop of \<^verbatim>\<open>createComputeEnvironmentOrder\<close>, with the slice built so far as an
  accumulator. Each element is asserted to be a map, its \<^verbatim>\<open>"order"\<close> entry an
  \<^verbatim>\<open>int64\<close> and its \<^verbatim>\<open>"compute_environment"\<close> entry a string, in this order.
\<close>

fun createComputeEnvironmentOrder_loop ::
  "val list \<Rightarrow> ComputeEnvironmentOrder list \<Rightarrow> ComputeEnvironmentOrder list result" where
  "createComputeEnvironmentOrder_loop [] envs = Ok envs"
| "createComputeEnvironmentOrder_loop (env # order) envs =
     andThen (assertMap env) (\<lambda>m.
     andThen (assertInt64 (index m ''order'')) (\<lambda>n.
     andThen (assertString (index m ''compute_environment'')) (\<lambda>s.
       createComputeEnvironmentOrder_loop order
         (envs @ [\<lparr>ceo_Order = Some n, ceo_ComputeEnvironment = Some s\<rparr>]))))"

definition createComputeEnvironmentOrder ::
  "val list \<Rightarrow> ComputeEnvironmentOrder list result" where
  "createComputeEnvironmentOrder order = createComputeEnvironmentOrder_loop order []"

subsection \<open>The plugin framework: schema and resource data\<close>

text \<open>
  \<^verbatim>\<open>schema.ResourceData\<close> and its methods belong to the plugin framework the file
  imports, not to the file. The model keeps what the resource functions rely on: every
  access goes through the schema of the resource, so that a key the schema does not
  declare has no value to read and cannot be written.
\<close>

datatype ValueType = TypeString | TypeInt | TypeList | TypeMap

text \<open>
  The top-level attributes that \<^verbatim>\<open>resourceAwsBatchJobQueue\<close> declares, in the order of the
  source, each with its type (\<^verbatim>\<open>tagsSchema\<close> and \<^verbatim>\<open>tagsSchemaComputed\<close> are maps).
\<close>

definition resourceAwsBatchJobQueue_Schema :: "(string \<times> ValueType) list" where
  "resourceAwsBatchJobQueue_Schema =
     [(''compute_environment_order'', TypeList),
      (''name'', TypeString),
      (''priority'', TypeInt),
      (''state'', TypeString),
      (''tags'', TypeMap),
      (''tags_all'', TypeMap),
      (''arn'', TypeString)]"

fun zeroValue :: "ValueType \<Rightarrow> val" where
  "zeroValue TypeString = VString []"
| "zeroValue TypeInt = VInt 0"
| "zeroValue TypeList = VList []"
| "zeroValue TypeMap = VMap []"

text \<open>
  \<^verbatim>\<open>schema.ResourceData\<close>: the identifier, the attributes of the prior state, the
  attributes the plan changes, and the attributes written by \<^verbatim>\<open>Set\<close> during the call.
\<close>

record ResourceData =
  rd_id :: string
  rd_state :: "string \<rightharpoonup> val"
  rd_diff :: "string \<rightharpoonup> val"
  rd_set :: "string \<rightharpoonup> val"

text \<open>
  Reading an attribute at one level of the data. The framework resolves the key against
  the schema first: a key the schema does not declare reads as nil whatever the level
  holds, and a declared key that is not set reads as the zero value of its type.
\<close>

definition readField :: "(string \<rightharpoonup> val) \<Rightarrow> string \<Rightarrow> val" where
  "readField level key =
     (case map_of resourceAwsBatchJobQueue_Schema key of
        None \<Rightarrow> VNil
      | Some t \<Rightarrow> (case level key of None \<Rightarrow> zeroValue t | Some v \<Rightarrow> v))"

definition Get :: "ResourceData \<Rightarrow> string \<Rightarrow> val" where
  "Get d key = readField (rd_state d ++ rd_diff d ++ rd_set d) key"

definition GetChange :: "ResourceData \<Rightarrow> string \<Rightarrow> val \<times> val" where
  "GetChange d key = (readField (rd_state d) key, readField (rd_state d ++ rd_diff d) key)"

definition HasChange :: "ResourceData \<Rightarrow> string \<Rightarrow> bool" where
  "HasChange d key = (fst (GetChange d key) \<noteq> snd (GetChange d key))"

fun HasChanges :: "ResourceData \<Rightarrow> string list \<Rightarrow> bool" where
  "HasChanges d [] = False"
| "HasChanges d (key # keys) = (if HasChange d key then True else HasChanges d keys)"

text \<open>
  \<^verbatim>\<open>Set\<close> writes a declared attribute and returns an error, writing nothing, for a key
  the schema does not declare. (Its check of the value against the attribute's type is
  not modelled: the source passes values of the declared types.)
\<close>

definition Set :: "ResourceData \<Rightarrow> string \<Rightarrow> val \<Rightarrow> error option \<times> ResourceData" where
  "Set d key v =
     (case map_of resourceAwsBatchJobQueue_Schema key of
        None \<Rightarrow> (Some (InvalidAddress key), d)
      | Some t \<Rightarrow> (None, d\<lparr>rd_set := (rd_set d)(key \<mapsto> v)\<rparr>))"

definition Id :: "ResourceData \<Rightarrow> string" where
  "Id d = rd_id d"

definition SetId :: "ResourceData \<Rightarrow> string \<Rightarrow> ResourceData" where
  "SetId d v = d\<lparr>rd_id := v\<rparr>"

text \<open>A pointer handed to \<^verbatim>\<open>Set\<close> is dereferenced; a nil pointer is the nil value.\<close>

definition ptrString :: "string option \<Rightarrow> val" where
  "ptrString p = (case p of None \<Rightarrow> VNil | Some s \<Rightarrow> VString s)"

definition ptrInt64 :: "64 word option \<Rightarrow> val" where
  "ptrInt64 p = (case p of None \<Rightarrow> VNil | Some n \<Rightarrow> VInt (sint n))"

subsection \<open>The Batch client\<close>

text \<open>
  The calls the resource issues. \<open>BatchUpdateTagsCall\<close> is the tag reconciliation
  \<^verbatim>\<open>keyvaluetags.BatchUpdateTags(conn, arn, o, n)\<close>.
\<close>

datatype api_call =
    CreateJobQueueCall CreateJobQueueInput
  | UpdateJobQueueCall UpdateJobQueueInput
  | DeleteJobQueueCall "string option"
  | DescribeJobQueuesCall "string option list"
  | BatchUpdateTagsCall string val val

text \<open>
  The service is not part of the file. It is a parameter: each operation answers as a
  function of the calls issued before it and of its input, which covers every
  deterministic service. The state threaded through the resource functions is the list
  of calls issued so far, oldest first.
\<close>

record batchconn =
  on_CreateJobQueue :: "api_call list \<Rightarrow> CreateJobQueueInput \<Rightarrow> error + string option"
  on_UpdateJobQueue :: "api_call list \<Rightarrow> UpdateJobQueueInput \<Rightarrow> error option"
  on_DeleteJobQueue :: "api_call list \<Rightarrow> string option \<Rightarrow> error option"
  on_DescribeJobQueues :: "api_call list \<Rightarrow> string option list \<Rightarrow> error + JobQueueDetail list"
  on_BatchUpdateTags :: "api_call list \<Rightarrow> string \<Rightarrow> val \<Rightarrow> val \<Rightarrow> error option"

definition CreateJobQueue ::
  "batchconn \<Rightarrow> CreateJobQueueInput \<Rightarrow> api_call list \<Rightarrow> (error + string option) \<times> api_call list" where
  "CreateJobQueue conn input log =
     (on_CreateJobQueue conn log input, log @ [CreateJobQueueCall input])"

definition UpdateJobQueue ::
  "batchconn \<Rightarrow> UpdateJobQueueInput \<Rightarrow> api_call list \<Rightarrow> error option \<times> api_call list" where
  "UpdateJobQueue conn input log =
     (on_UpdateJobQueue conn log input, log @ [UpdateJobQueueCall input])"

definition DeleteJobQueue ::
  "batchconn \<Rightarrow> string option \<Rightarrow> api_call list \<Rightarrow> error option \<times> api_call list" where
  "DeleteJobQueue conn jobQueue log =
     (on_DeleteJobQueue conn log jobQueue, log @ [DeleteJobQueueCall jobQueue])"

definition DescribeJobQueues ::
  "batchconn \<Rightarrow> string option list \<Rightarrow> api_call list \<Rightarrow> (error + JobQueueDetail list) \<times> api_call list" where
  "DescribeJobQueues conn jobQueues log =
     (on_DescribeJobQueues conn log jobQueues, log @ [DescribeJobQueuesCall jobQueues])"

definition BatchUpdateTags ::
  "batchconn \<Rightarrow> string \<Rightarrow> val \<Rightarrow> val \<Rightarrow> api_call list \<Rightarrow> error option \<times> api_call list" where
  "BatchUpdateTags conn arn oldTags newTags log =
     (on_BatchUpdateTags conn log arn oldTags newTags, log @ [BatchUpdateTagsCall arn oldTags newTags])"

text \<open>
  \<^verbatim>\<open>AWSClient\<close>: the connection, the two tag configurations, and the operations of
  package \<^verbatim>\<open>keyvaluetags\<close> that the file calls, which are parameters as well.
\<close>

record AWSClient =
  batchconn :: batchconn
  DefaultTagsConfig :: tags
  IgnoreTagsConfig :: tags
  kvt_New :: "(string \<times> val) list \<Rightarrow> tags"
  kvt_MergeTags :: "tags \<Rightarrow> tags \<Rightarrow> tags"
  kvt_IgnoreAws :: "tags \<Rightarrow> tags"
  kvt_IgnoreConfig :: "tags \<Rightarrow> tags \<Rightarrow> tags"
  kvt_RemoveDefaultConfig :: "tags \<Rightarrow> tags \<Rightarrow> tags"
  kvt_BatchTags :: "tags \<Rightarrow> tags"
  kvt_BatchKeyValueTags :: "tags \<Rightarrow> tags"
  kvt_Map :: "tags \<Rightarrow> val"

subsection \<open>getJobQueue and the status refresh function\<close>

text \<open>
  \<^verbatim>\<open>getJobQueue\<close>: one describe call; its error, nil for no match, the match when there is
  exactly one, and an error for more than one.
\<close>

definition getJobQueue ::
  "batchconn \<Rightarrow> string \<Rightarrow> api_call list \<Rightarrow> JobQueueDetail option result \<times> api_call list" where
  "getJobQueue conn sn log =
     (case DescribeJobQueues conn [Some sn] log of
        (Inl err, log') \<Rightarrow> (Fail err, log')
      | (Inr jobQueues, log') \<Rightarrow>
          (if length jobQueues = 0 then (Ok None, log')
           else if length jobQueues = 1 then (Ok (Some (jobQueues ! 0)), log')
           else if length jobQueues > 1 then
             (Fail (Errorf ''Multiple Job Queues with name %s'' [ArgString sn]), log')
           else (Ok None, log')))"

text \<open>The first component of what a refresh function returns.\<close>

datatype refreshed = RNil | RInt int | RJobQueue JobQueueDetail

text \<open>
  \<^verbatim>\<open>batchJobQueueRefreshStatusFunc\<close>: the closure it returns, applied to the calls issued
  so far. It returns the triple of the source (result, status, error);
  \<^verbatim>\<open>*ce.Status\<close> dereferences the status pointer and panics when it is nil.
\<close>

type_synonym refresh_result = "(refreshed \<times> string \<times> error option) result"

definition batchJobQueueRefreshStatusFunc ::
  "batchconn \<Rightarrow> string \<Rightarrow> api_call list \<Rightarrow> refresh_result \<times> api_call list" where
  "batchJobQueueRefreshStatusFunc conn sn log =
     (case getJobQueue conn sn log of
        (Fail err, log') \<Rightarrow> (Ok (RNil, ''failed'', Some err), log')
      | (Panic p, log') \<Rightarrow> (Panic p, log')
      | (Ok None, log') \<Rightarrow> (Ok (RInt 42, JQStatusDeleted, None), log')
      | (Ok (Some ce), log') \<Rightarrow>
          (case jqd_Status ce of
             None \<Rightarrow> (Panic NilDereference, log')
           | Some status \<Rightarrow> (Ok (RJobQueue ce, status, None), log')))"

subsection \<open>The status poller\<close>

text \<open>Durations, in seconds.\<close>

definition Second :: nat where "Second = 1"
definition Minute :: nat where "Minute = 60 * Second"

record StateChangeConf =
  Pending :: "string list"
  Target :: "string list"
  Refresh :: "api_call list \<Rightarrow> refresh_result \<times> api_call list"
  Timeout :: nat
  Delay :: nat
  MinTimeout :: nat

text \<open>
  Modelled from the spec: \<^verbatim>\<open>StateChangeConf.WaitForState\<close> belongs to the plugin
  framework and is not in the file. Section 4.2 describes it: it fetches the status
  repeatedly until the status is a target (success), a status that is neither pending
  nor a target appears (failure), or the timeout elapses (failure). A fetch that
  returns an error ends the wait with that error. The first fetch happens after the
  initial delay and the following ones the minimum interval apart, so the timeout
  bounds the number of fetches by \<open>pollAttempts\<close>.
\<close>

definition pollAttempts :: "StateChangeConf \<Rightarrow> nat" where
  "pollAttempts conf =
     (if Timeout conf \<le> Delay conf then 0
      else (Timeout conf - Delay conf - 1) div (max 1 (MinTimeout conf)) + 1)"

fun pollStatus :: "nat \<Rightarrow> StateChangeConf \<Rightarrow> api_call list \<Rightarrow> refreshed result \<times> api_call list" where
  "pollStatus 0 conf log = (Fail TimeoutError, log)"
| "pollStatus (Suc n) conf log =
     (case Refresh conf log of
        (Panic p, log') \<Rightarrow> (Panic p, log')
      | (Fail e, log') \<Rightarrow> (Fail e, log')
      | (Ok (res, currentState, Some err), log') \<Rightarrow> (Fail err, log')
      | (Ok (res, currentState, None), log') \<Rightarrow>
          (if currentState \<in> set (Target conf) then (Ok res, log')
           else if currentState \<in> set (Pending conf) then pollStatus n conf log'
           else (Fail (UnexpectedStateError currentState), log')))"

definition WaitForState :: "StateChangeConf \<Rightarrow> api_call list \<Rightarrow> refreshed result \<times> api_call list" where
  "WaitForState conf log = pollStatus (pollAttempts conf) conf log"

text \<open>The four \<^verbatim>\<open>StateChangeConf\<close> literals of the file.\<close>

definition createStateConf :: "batchconn \<Rightarrow> string \<Rightarrow> StateChangeConf" where
  "createStateConf conn name =
     \<lparr>Pending = [JQStatusCreating, JQStatusUpdating],
      Target = [JQStatusValid],
      Refresh = batchJobQueueRefreshStatusFunc conn name,
      Timeout = 10 * Minute,
      Delay = 10 * Second,
      MinTimeout = 3 * Second\<rparr>"

definition updateStateConf :: "batchconn \<Rightarrow> string \<Rightarrow> StateChangeConf" where
  "updateStateConf conn name =
     \<lparr>Pending = [JQStatusUpdating],
      Target = [JQStatusValid],
      Refresh = batchJobQueueRefreshStatusFunc conn name,
      Timeout = 10 * Minute,
      Delay = 10 * Second,
      MinTimeout = 3 * Second\<rparr>"

definition deleteStateChangeConf :: "batchconn \<Rightarrow> string \<Rightarrow> StateChangeConf" where
  "deleteStateChangeConf conn jobQueue =
     \<lparr>Pending = [JQStateDisabled, JQStatusDeleting],
      Target = [JQStatusDeleted],
      Refresh = batchJobQueueRefreshStatusFunc conn jobQueue,
      Timeout = 10 * Minute,
      Delay = 10 * Second,
      MinTimeout = 3 * Second\<rparr>"

definition disableStateChangeConf :: "batchconn \<Rightarrow> string \<Rightarrow> StateChangeConf" where
  "disableStateChangeConf conn jobQueue =
     \<lparr>Pending = [JQStatusUpdating],
      Target = [JQStatusValid],
      Refresh = batchJobQueueRefreshStatusFunc conn jobQueue,
      Timeout = 10 * Minute,
      Delay = 10 * Second,
      MinTimeout = 3 * Second\<rparr>"

subsection \<open>Read\<close>

text \<open>
  \<^verbatim>\<open>sort.Slice\<close> with the comparison of the source: ascending in the signed value of
  \<^verbatim>\<open>aws.Int64Value(Order)\<close>. Go does not promise the order of entries with equal keys;
  the model keeps them in their order of arrival.
\<close>

definition orderKey :: "ComputeEnvironmentOrder \<Rightarrow> int" where
  "orderKey e = sint (Int64Value (ceo_Order e))"

definition sortComputeEnvironmentOrder ::
  "ComputeEnvironmentOrder list \<Rightarrow> ComputeEnvironmentOrder list" where
  "sortComputeEnvironmentOrder xs = sort_key orderKey xs"

text \<open>The local \<^verbatim>\<open>computeEnvironments\<close> of Read: the names, in the sorted order.\<close>

definition computeEnvironments :: "JobQueueDetail \<Rightarrow> string list" where
  "computeEnvironments jq =
     map (\<lambda>computeEnvironmentOrder. StringValue (ceo_ComputeEnvironment computeEnvironmentOrder))
       (sortComputeEnvironmentOrder (jqd_ComputeEnvironmentOrder jq))"

text \<open>
  \<^verbatim>\<open>resourceAwsBatchJobQueueRead\<close>. The results of the \<^verbatim>\<open>Set\<close> calls for \<^verbatim>\<open>arn\<close>,
  \<^verbatim>\<open>name\<close>, \<^verbatim>\<open>priority\<close> and \<^verbatim>\<open>state\<close> are dropped, as in the source; those for
  \<^verbatim>\<open>compute_environments\<close>, \<^verbatim>\<open>tags\<close> and \<^verbatim>\<open>tags_all\<close> are checked.
\<close>

definition resourceAwsBatchJobQueueRead ::
  "AWSClient \<Rightarrow> ResourceData \<Rightarrow> api_call list \<Rightarrow> unit result \<times> ResourceData \<times> api_call list" where
  "resourceAwsBatchJobQueueRead meta d log =
     (case getJobQueue (batchconn meta) (Id d) log of
        (Fail err, log') \<Rightarrow> (Fail err, d, log')
      | (Panic p, log') \<Rightarrow> (Panic p, d, log')
      | (Ok None, log') \<Rightarrow> (Ok (), SetId d [], log')
      | (Ok (Some jq), log') \<Rightarrow>
          (let d1 = snd (Set d ''arn'' (ptrString (jqd_JobQueueArn jq)))
           in case Set d1 ''compute_environments'' (VList (map VString (computeEnvironments jq))) of
                (Some err, d2) \<Rightarrow>
                  (Fail (Errorf ''error setting compute_environments: %s'' [ArgError err]), d2, log')
              | (None, d2) \<Rightarrow>
                  (let d3 = snd (Set d2 ''name'' (ptrString (jqd_JobQueueName jq)));
                       d4 = snd (Set d3 ''priority'' (ptrInt64 (jqd_Priority jq)));
                       d5 = snd (Set d4 ''state'' (ptrString (jqd_State jq)));
                       tags = kvt_IgnoreConfig meta
                                (kvt_IgnoreAws meta (kvt_BatchKeyValueTags meta (jqd_Tags jq)))
                                (IgnoreTagsConfig meta)
                   in case Set d5 ''tags''
                             (kvt_Map meta (kvt_RemoveDefaultConfig meta tags (DefaultTagsConfig meta))) of
                        (Some err, d6) \<Rightarrow>
                          (Fail (Errorf ''error setting tags: %w'' [ArgError err]), d6, log')
                      | (None, d6) \<Rightarrow>
                          (case Set d6 ''tags_all'' (kvt_Map meta tags) of
                             (Some err, d7) \<Rightarrow>
                               (Fail (Errorf ''error setting tags_all: %w'' [ArgError err]), d7, log')
                           | (None, d7) \<Rightarrow> (Ok (), d7, log')))))"

subsection \<open>Create\<close>

text \<open>
  The request of Create, lines 80 to 92 of the source in their order of evaluation: the
  type assertion on \<^verbatim>\<open>tags\<close>, then the fields of the input literal, then the tags of
  the request, then \<^verbatim>\<open>name\<close>.
\<close>

definition createJobQueueInput :: "AWSClient \<Rightarrow> ResourceData \<Rightarrow> (CreateJobQueueInput \<times> string) result" where
  "createJobQueueInput meta d =
     andThen (assertMap (Get d ''tags'')) (\<lambda>tagsMap.
     andThen (andThen (assertList (Get d ''compute_environment_order'')) createComputeEnvironmentOrder) (\<lambda>envs.
     andThen (assertString (Get d ''name'')) (\<lambda>jobQueueName.
     andThen (assertInt (Get d ''priority'')) (\<lambda>priority.
     andThen (assertString (Get d ''state'')) (\<lambda>state.
     andThen (assertString (Get d ''name'')) (\<lambda>name.
       (let tags = kvt_MergeTags meta (DefaultTagsConfig meta) (kvt_New meta tagsMap)
        in Ok (\<lparr>cjq_ComputeEnvironmentOrder = envs,
                 cjq_JobQueueName = Some jobQueueName,
                 cjq_Priority = Some (int64 priority),
                 cjq_State = Some state,
                 cjq_Tags = (if length tags > 0
                             then Some (kvt_BatchTags meta (kvt_IgnoreAws meta tags))
                             else None)\<rparr>,
               name))))))))"

definition resourceAwsBatchJobQueueCreate ::
  "AWSClient \<Rightarrow> ResourceData \<Rightarrow> api_call list \<Rightarrow> unit result \<times> ResourceData \<times> api_call list" where
  "resourceAwsBatchJobQueueCreate meta d log =
     (case createJobQueueInput meta d of
        Panic p \<Rightarrow> (Panic p, d, log)
      | Fail e \<Rightarrow> (Fail e, d, log)
      | Ok (input, name) \<Rightarrow>
          (case CreateJobQueue (batchconn meta) input log of
             (Inl err, log1) \<Rightarrow> (Fail (Errorf ''%s %q'' [ArgError err, ArgString name]), d, log1)
           | (Inr out, log1) \<Rightarrow>
               (case WaitForState (createStateConf (batchconn meta) name) log1 of
                  (Fail err, log2) \<Rightarrow>
                    (Fail (Errorf ''Error waiting for JobQueue state to be \"VALID\": %s'' [ArgError err]),
                     d, log2)
                | (Panic p, log2) \<Rightarrow> (Panic p, d, log2)
                | (Ok res, log2) \<Rightarrow>
                    resourceAwsBatchJobQueueRead meta (SetId d (StringValue out)) log2)))"

subsection \<open>Update\<close>

text \<open>The body of the first \<^verbatim>\<open>if\<close> of Update: the update call and its poll.\<close>

definition updateJobQueueInput :: "ResourceData \<Rightarrow> (UpdateJobQueueInput \<times> string) result" where
  "updateJobQueueInput d =
     andThen (assertString (Get d ''name'')) (\<lambda>name.
     andThen (andThen (assertList (Get d ''compute_environment_order'')) createComputeEnvironmentOrder) (\<lambda>envs.
     andThen (assertInt (Get d ''priority'')) (\<lambda>priority.
     andThen (assertString (Get d ''state'')) (\<lambda>state.
       Ok (\<lparr>ujq_ComputeEnvironmentOrder = envs,
             ujq_JobQueue = Some name,
             ujq_Priority = Some (int64 priority),
             ujq_State = Some state\<rparr>,
           name)))))"

definition updateJobQueueIfChanged ::
  "AWSClient \<Rightarrow> ResourceData \<Rightarrow> api_call list \<Rightarrow> unit result \<times> api_call list" where
  "updateJobQueueIfChanged meta d log =
     (if HasChanges d [''compute_environments'', ''priority'', ''state''] then
        (case updateJobQueueInput d of
           Panic p \<Rightarrow> (Panic p, log)
         | Fail e \<Rightarrow> (Fail e, log)
         | Ok (updateInput, name) \<Rightarrow>
             (case UpdateJobQueue (batchconn meta) updateInput log of
                (Some err, log1) \<Rightarrow> (Fail err, log1)
              | (None, log1) \<Rightarrow>
                  (case WaitForState (updateStateConf (batchconn meta) name) log1 of
                     (Fail err, log2) \<Rightarrow> (Fail err, log2)
                   | (Panic p, log2) \<Rightarrow> (Panic p, log2)
                   | (Ok res, log2) \<Rightarrow> (Ok (), log2))))
      else (Ok (), log))"

text \<open>The body of the second \<^verbatim>\<open>if\<close> of Update: the tag reconciliation.\<close>

definition updateTagsIfChanged ::
  "AWSClient \<Rightarrow> ResourceData \<Rightarrow> api_call list \<Rightarrow> unit result \<times> api_call list" where
  "updateTagsIfChanged meta d log =
     (if HasChange d ''tags_all'' then
        (case assertString (Get d ''arn'') of
           Panic p \<Rightarrow> (Panic p, log)
         | Fail e \<Rightarrow> (Fail e, log)
         | Ok arn \<Rightarrow>
             (case BatchUpdateTags (batchconn meta) arn
                     (fst (GetChange d ''tags_all'')) (snd (GetChange d ''tags_all'')) log of
                (Some err, log1) \<Rightarrow> (Fail (Errorf ''error updating tags: %s'' [ArgError err]), log1)
              | (None, log1) \<Rightarrow> (Ok (), log1)))
      else (Ok (), log))"

definition resourceAwsBatchJobQueueUpdate ::
  "AWSClient \<Rightarrow> ResourceData \<Rightarrow> api_call list \<Rightarrow> unit result \<times> ResourceData \<times> api_call list" where
  "resourceAwsBatchJobQueueUpdate meta d log =
     (case updateJobQueueIfChanged meta d log of
        (Panic p, log1) \<Rightarrow> (Panic p, d, log1)
      | (Fail e, log1) \<Rightarrow> (Fail e, d, log1)
      | (Ok u, log1) \<Rightarrow>
          (case updateTagsIfChanged meta d log1 of
             (Panic p, log2) \<Rightarrow> (Panic p, d, log2)
           | (Fail e, log2) \<Rightarrow> (Fail e, d, log2)
           | (Ok v, log2) \<Rightarrow> resourceAwsBatchJobQueueRead meta d log2))"

subsection \<open>Delete\<close>

definition disableBatchJobQueue ::
  "string \<Rightarrow> batchconn \<Rightarrow> api_call list \<Rightarrow> unit result \<times> api_call list" where
  "disableBatchJobQueue jobQueue conn log =
     (case UpdateJobQueue conn
             \<lparr>ujq_ComputeEnvironmentOrder = [],
              ujq_JobQueue = Some jobQueue,
              ujq_Priority = None,
              ujq_State = Some JQStateDisabled\<rparr> log of
        (Some err, log1) \<Rightarrow> (Fail err, log1)
      | (None, log1) \<Rightarrow>
          (case WaitForState (disableStateChangeConf conn jobQueue) log1 of
             (Fail err, log2) \<Rightarrow> (Fail err, log2)
           | (Panic p, log2) \<Rightarrow> (Panic p, log2)
           | (Ok res, log2) \<Rightarrow> (Ok (), log2)))"

definition deleteBatchJobQueue ::
  "string \<Rightarrow> batchconn \<Rightarrow> api_call list \<Rightarrow> unit result \<times> api_call list" where
  "deleteBatchJobQueue jobQueue conn log =
     (case DeleteJobQueue conn (Some jobQueue) log of
        (Some err, log1) \<Rightarrow> (Fail err, log1)
      | (None, log1) \<Rightarrow>
          (case WaitForState (deleteStateChangeConf conn jobQueue) log1 of
             (Fail err, log2) \<Rightarrow> (Fail err, log2)
           | (Panic p, log2) \<Rightarrow> (Panic p, log2)
           | (Ok res, log2) \<Rightarrow> (Ok (), log2)))"

definition resourceAwsBatchJobQueueDelete ::
  "AWSClient \<Rightarrow> ResourceData \<Rightarrow> api_call list \<Rightarrow> unit result \<times> api_call list" where
  "resourceAwsBatchJobQueueDelete meta d log =
     (case assertString (Get d ''name'') of
        Panic p \<Rightarrow> (Panic p, log)
      | Fail e \<Rightarrow> (Fail e, log)
      | Ok name \<Rightarrow>
          (case disableBatchJobQueue name (batchconn meta) log of
             (Fail err, log1) \<Rightarrow>
               (Fail (Errorf ''error disabling Batch Job Queue (%s): %s'' [ArgString name, ArgError err]), log1)
           | (Panic p, log1) \<Rightarrow> (Panic p, log1)
           | (Ok u, log1) \<Rightarrow>
               (case deleteBatchJobQueue name (batchconn meta) log1 of
                  (Fail err, log2) \<Rightarrow>
                    (Fail (Errorf ''error deleting Batch Job Queue (%s): %s'' [ArgString name, ArgError err]), log2)
                | (Panic p, log2) \<Rightarrow> (Panic p, log2)
                | (Ok v, log2) \<Rightarrow> (Ok (), log2))))"

subsection \<open>Observing the calls\<close>

fun isUpdateJobQueueCall :: "api_call \<Rightarrow> bool" where
  "isUpdateJobQueueCall (UpdateJobQueueCall input) = True"
| "isUpdateJobQueueCall c = False"

fun isDeleteJobQueueCall :: "api_call \<Rightarrow> bool" where
  "isDeleteJobQueueCall (DeleteJobQueueCall jobQueue) = True"
| "isDeleteJobQueueCall c = False"

text \<open>The calls a function issued: those of the log it returns beyond the log it was given.\<close>

definition issued :: "api_call list \<Rightarrow> api_call list \<Rightarrow> api_call list" where
  "issued before after = drop (length before) after"

text \<open>The request of \<^verbatim>\<open>disableBatchJobQueue\<close>.\<close>

definition disableInput :: "string \<Rightarrow> UpdateJobQueueInput" where
  "disableInput jobQueue =
     \<lparr>ujq_ComputeEnvironmentOrder = [],
      ujq_JobQueue = Some jobQueue,
      ujq_Priority = None,
      ujq_State = Some JQStateDisabled\<rparr>"

subsection \<open>Concrete inputs\<close>

text \<open>
  The scenario of the specification: queue \<^verbatim>\<open>q1\<close>, priority 1, enabled, environments
  \<^verbatim>\<open>a\<close> with order 1 and \<^verbatim>\<open>b\<close> with order 0. The framework stores a \<^verbatim>\<open>TypeInt\<close>
  attribute as a Go \<^verbatim>\<open>int\<close>, hence \<open>VInt\<close>.
\<close>

definition envEntry :: "string \<Rightarrow> int \<Rightarrow> val" where
  "envEntry ce n = VMap [(''compute_environment'', VString ce), (''order'', VInt n)]"

definition q1_spec :: ResourceData where
  "q1_spec =
     \<lparr>rd_id = [],
      rd_state = Map.empty,
      rd_diff = [''name'' \<mapsto> VString ''q1'',
                 ''priority'' \<mapsto> VInt 1,
                 ''state'' \<mapsto> VString ''ENABLED'',
                 ''compute_environment_order'' \<mapsto> VList [envEntry ''a'' 1, envEntry ''b'' 0]],
      rd_set = Map.empty\<rparr>"


text \<open>A queue in the prior state, and a plan that changes only its environment order.\<close>

definition q1_stored :: ResourceData where
  "q1_stored =
     \<lparr>rd_id = ''arn:q1'',
      rd_state = [''name'' \<mapsto> VString ''q1'',
                  ''priority'' \<mapsto> VInt 1,
                  ''state'' \<mapsto> VString ''ENABLED'',
                  ''compute_environment_order'' \<mapsto> VList [envEntry ''a'' 0],
                  ''arn'' \<mapsto> VString ''arn:q1''],
      rd_diff = Map.empty,
      rd_set = Map.empty\<rparr>"

definition q1_order_changed :: ResourceData where
  "q1_order_changed =
     q1_stored\<lparr>rd_diff := [''compute_environment_order'' \<mapsto> VList [envEntry ''b'' 0]]\<rparr>"

text \<open>A queue as the service reports it, with the given status and environment order.\<close>

definition q1_detail :: "string \<Rightarrow> ComputeEnvironmentOrder list \<Rightarrow> JobQueueDetail" where
  "q1_detail status envs =
     \<lparr>jqd_ComputeEnvironmentOrder = envs,
      jqd_JobQueueArn = Some ''arn:q1'',
      jqd_JobQueueName = Some ''q1'',
      jqd_Priority = Some 1,
      jqd_State = Some ''ENABLED'',
      jqd_Status = Some status,
      jqd_Tags = []\<rparr>"

text \<open>A service whose calls all succeed and whose describe call answers with the given list.\<close>

definition conn_describing :: "JobQueueDetail list \<Rightarrow> batchconn" where
  "conn_describing jobQueues =
     \<lparr>on_CreateJobQueue = (\<lambda>log input. Inr (Some ''arn:q1'')),
      on_UpdateJobQueue = (\<lambda>log input. None),
      on_DeleteJobQueue = (\<lambda>log jobQueue. None),
      on_DescribeJobQueues = (\<lambda>log names. Inr jobQueues),
      on_BatchUpdateTags = (\<lambda>log arn oldTags newTags. None)\<rparr>"

text \<open>The same service, except that the describe call fails.\<close>

definition conn_failing :: batchconn where
  "conn_failing =
     (conn_describing [])\<lparr>on_DescribeJobQueues := (\<lambda>log names. Inl (ApiError ''ServerException''))\<rparr>"

text \<open>The same service, except that the update call is refused.\<close>

definition conn_refusing :: batchconn where
  "conn_refusing =
     (conn_describing [])\<lparr>on_UpdateJobQueue := (\<lambda>log input. Some (ApiError ''ClientException''))\<rparr>"

text \<open>A client with no default or ignored tags, over the given connection.\<close>

definition client :: "batchconn \<Rightarrow> AWSClient" where
  "client conn =
     \<lparr>batchconn = conn,
      DefaultTagsConfig = [],
      IgnoreTagsConfig = [],
      kvt_New = (\<lambda>m. map (\<lambda>(k, v). (k, case v of VString s \<Rightarrow> s | _ \<Rightarrow> [])) m),
      kvt_MergeTags = (\<lambda>defaults ts. defaults @ ts),
      kvt_IgnoreAws = (\<lambda>ts. ts),
      kvt_IgnoreConfig = (\<lambda>ts ignored. ts),
      kvt_RemoveDefaultConfig = (\<lambda>ts defaults. ts),
      kvt_BatchTags = (\<lambda>ts. ts),
      kvt_BatchKeyValueTags = (\<lambda>ts. ts),
      kvt_Map = (\<lambda>ts. VMap (map (\<lambda>(k, v). (k, VString v)) ts))\<rparr>"

text \<open>
  A service that reports the queue as \<^verbatim>\<open>VALID\<close> until a delete call has been issued and
  as gone afterwards.
\<close>

definition conn_lifecycle :: batchconn where
  "conn_lifecycle =
     (conn_describing [])\<lparr>on_DescribeJobQueues :=
        (\<lambda>log names. if list_ex isDeleteJobQueueCall log then Inr []
                       else Inr [q1_detail ''VALID'' []])\<rparr>"

section \<open>Properties\<close>

subsection \<open>Evaluation lemmas\<close>

lemma andThen_Ok: "andThen (Ok x) f = f x"
  by (simp add: andThen_def)

lemma andThen_Panic: "andThen (Panic p) f = Panic p"
  by (simp add: andThen_def)

lemma andThen_Fail: "andThen (Fail e) f = Fail e"
  by (simp add: andThen_def)

lemmas andThen_simps = andThen_Ok andThen_Panic andThen_Fail

text \<open>
  Whatever else the list holds, a first entry whose \<^verbatim>\<open>"order"\<close> is a Go \<^verbatim>\<open>int\<close> stops
  \<^verbatim>\<open>createComputeEnvironmentOrder\<close> with a failed type assertion.
\<close>

lemma createComputeEnvironmentOrder_int_panics:
  "index m ''order'' = VInt n \<Longrightarrow>
   createComputeEnvironmentOrder (VMap m # rest) = Panic (InterfaceConversion ''int64'' (VInt n))"
  by (simp add: createComputeEnvironmentOrder_def andThen_simps)

subsection \<open>The type assertion on the order value\<close>

text \<open>
  Claim C4. The claim: for every non-empty \<^verbatim>\<open>compute_environment_order\<close> list whose
  entries carry an \<^verbatim>\<open>order\<close> stored as a machine int, \<^verbatim>\<open>createComputeEnvironmentOrder\<close>
  completes without a failed type assertion and returns one entry per element. The code
  asserts \<^verbatim>\<open>int64\<close> on a value whose dynamic type is \<^verbatim>\<open>int\<close>: on the one-element list
  holding environment \<^verbatim>\<open>a\<close> with order 0 it panics and returns no entry.
\<close>

theorem createComputeEnvironmentOrder_panics_on_int_order:
  "createComputeEnvironmentOrder [envEntry ''a'' 0] = Panic (InterfaceConversion ''int64'' (VInt 0))"
  by (simp add: createComputeEnvironmentOrder_def envEntry_def andThen_simps index_def)

subsection \<open>The lookup\<close>

lemma getJobQueue_none:
  "on_DescribeJobQueues conn log [Some sn] = Inr [] \<Longrightarrow>
   getJobQueue conn sn log = (Ok None, log @ [DescribeJobQueuesCall [Some sn]])"
  by (simp add: getJobQueue_def DescribeJobQueues_def)

lemma getJobQueue_one:
  "on_DescribeJobQueues conn log [Some sn] = Inr [jq] \<Longrightarrow>
   getJobQueue conn sn log = (Ok (Some jq), log @ [DescribeJobQueuesCall [Some sn]])"
  by (simp add: getJobQueue_def DescribeJobQueues_def)

lemma getJobQueue_many:
  "on_DescribeJobQueues conn log [Some sn] = Inr jobQueues \<Longrightarrow> 1 < length jobQueues \<Longrightarrow>
   getJobQueue conn sn log =
     (Fail (Errorf ''Multiple Job Queues with name %s'' [ArgString sn]),
      log @ [DescribeJobQueuesCall [Some sn]])"
  by (cases jobQueues) (simp_all add: getJobQueue_def DescribeJobQueues_def)

lemma getJobQueue_error:
  "on_DescribeJobQueues conn log [Some sn] = Inl err \<Longrightarrow>
   getJobQueue conn sn log = (Fail err, log @ [DescribeJobQueuesCall [Some sn]])"
  by (simp add: getJobQueue_def DescribeJobQueues_def)

lemma getJobQueue_log:
  "snd (getJobQueue conn sn log) = log @ [DescribeJobQueuesCall [Some sn]]"
  by (simp add: getJobQueue_def DescribeJobQueues_def split: sum.splits)

lemma refresh_log:
  "snd (batchJobQueueRefreshStatusFunc conn sn log) = log @ [DescribeJobQueuesCall [Some sn]]"
  using getJobQueue_log [of conn sn log]
  by (cases "getJobQueue conn sn log")
     (auto simp: batchJobQueueRefreshStatusFunc_def split: result.splits option.splits)

text \<open>
  Claim C6. When the describe call for the stored identifier succeeds with no match,
  Read returns no error and clears the identifier, which tells the caller to drop the
  resource from its state; nothing else of the resource data changes.
\<close>

theorem Read_absent_clears_id:
  assumes "on_DescribeJobQueues (batchconn meta) log [Some (Id d)] = Inr []"
  shows "resourceAwsBatchJobQueueRead meta d log =
           (Ok (), SetId d [], log @ [DescribeJobQueuesCall [Some (Id d)]])
         \<and> Id (SetId d []) = []"
  using assms by (simp add: resourceAwsBatchJobQueueRead_def getJobQueue_none Id_def SetId_def)

theorem Read_absent_clears_id_witness:
  "resourceAwsBatchJobQueueRead (client (conn_describing [])) q1_stored [] =
     (Ok (), SetId q1_stored [], [DescribeJobQueuesCall [Some ''arn:q1'']])
   \<and> Id (SetId q1_stored []) = []"
  using Read_absent_clears_id [of "client (conn_describing [])" "[]" q1_stored]
  by (simp add: client_def conn_describing_def Id_def q1_stored_def)

text \<open>
  Claim C7. When the describe call for the stored identifier returns more than one
  match, Read returns the error \<^verbatim>\<open>Multiple Job Queues with name ...\<close> and leaves the
  resource data as it was: none of the matches is read.
\<close>

theorem Read_ambiguous_fails:
  assumes "on_DescribeJobQueues (batchconn meta) log [Some (Id d)] = Inr jobQueues"
    and "1 < length jobQueues"
  shows "resourceAwsBatchJobQueueRead meta d log =
           (Fail (Errorf ''Multiple Job Queues with name %s'' [ArgString (Id d)]), d,
            log @ [DescribeJobQueuesCall [Some (Id d)]])"
  using assms by (simp add: resourceAwsBatchJobQueueRead_def getJobQueue_many)

theorem Read_ambiguous_fails_witness:
  "resourceAwsBatchJobQueueRead
     (client (conn_describing [q1_detail ''VALID'' [], q1_detail ''INVALID'' []])) q1_stored [] =
     (Fail (Errorf ''Multiple Job Queues with name %s'' [ArgString ''arn:q1'']), q1_stored,
      [DescribeJobQueuesCall [Some ''arn:q1'']])"
  using Read_ambiguous_fails
    [of "client (conn_describing [q1_detail ''VALID'' [], q1_detail ''INVALID'' []])"
      "[]" q1_stored "[q1_detail ''VALID'' [], q1_detail ''INVALID'' []]"]
  by (simp add: client_def conn_describing_def Id_def q1_stored_def)

text \<open>
  Claim C8. The status refresh function returns status \<^verbatim>\<open>DELETED\<close> when the lookup
  succeeds with no result; when the lookup fails (the describe call fails, or it returns
  more than one match) it returns the status \<^verbatim>\<open>failed\<close> together with the error, and
  \<^verbatim>\<open>failed\<close> is none of the lifecycle statuses of the API; with exactly one match it
  returns the status the queue reports.
\<close>

theorem refresh_status_cases:
  "(on_DescribeJobQueues conn log [Some sn] = Inr [] \<longrightarrow>
      batchJobQueueRefreshStatusFunc conn sn log =
        (Ok (RInt 42, JQStatusDeleted, None), log @ [DescribeJobQueuesCall [Some sn]]))
   \<and> (on_DescribeJobQueues conn log [Some sn] = Inl err \<longrightarrow>
      batchJobQueueRefreshStatusFunc conn sn log =
        (Ok (RNil, ''failed'', Some err), log @ [DescribeJobQueuesCall [Some sn]]))
   \<and> (on_DescribeJobQueues conn log [Some sn] = Inr jobQueues \<and> 1 < length jobQueues \<longrightarrow>
      batchJobQueueRefreshStatusFunc conn sn log =
        (Ok (RNil, ''failed'', Some (Errorf ''Multiple Job Queues with name %s'' [ArgString sn])),
         log @ [DescribeJobQueuesCall [Some sn]]))
   \<and> ''failed'' \<notin> set JQStatus_values
   \<and> (on_DescribeJobQueues conn log [Some sn] = Inr [ce] \<and> jqd_Status ce = Some status \<longrightarrow>
      batchJobQueueRefreshStatusFunc conn sn log =
        (Ok (RJobQueue ce, status, None), log @ [DescribeJobQueuesCall [Some sn]]))"
proof -
  have none: "on_DescribeJobQueues conn log [Some sn] = Inr [] \<longrightarrow>
      batchJobQueueRefreshStatusFunc conn sn log =
        (Ok (RInt 42, JQStatusDeleted, None), log @ [DescribeJobQueuesCall [Some sn]])"
    by (simp add: batchJobQueueRefreshStatusFunc_def getJobQueue_none)
  have failed: "on_DescribeJobQueues conn log [Some sn] = Inl err \<longrightarrow>
      batchJobQueueRefreshStatusFunc conn sn log =
        (Ok (RNil, ''failed'', Some err), log @ [DescribeJobQueuesCall [Some sn]])"
    by (simp add: batchJobQueueRefreshStatusFunc_def getJobQueue_error)
  have many: "on_DescribeJobQueues conn log [Some sn] = Inr jobQueues \<and> 1 < length jobQueues \<longrightarrow>
      batchJobQueueRefreshStatusFunc conn sn log =
        (Ok (RNil, ''failed'', Some (Errorf ''Multiple Job Queues with name %s'' [ArgString sn])),
         log @ [DescribeJobQueuesCall [Some sn]])"
    by (simp add: batchJobQueueRefreshStatusFunc_def getJobQueue_many)
  have sentinel: "''failed'' \<notin> set JQStatus_values"
    by (simp add: JQStatus_values_def JQStatusCreating_def JQStatusUpdating_def
        JQStatusDeleting_def JQStatusDeleted_def JQStatusValid_def JQStatusInvalid_def)
  have one: "on_DescribeJobQueues conn log [Some sn] = Inr [ce] \<and> jqd_Status ce = Some status \<longrightarrow>
      batchJobQueueRefreshStatusFunc conn sn log =
        (Ok (RJobQueue ce, status, None), log @ [DescribeJobQueuesCall [Some sn]])"
    by (simp add: batchJobQueueRefreshStatusFunc_def getJobQueue_one)
  from none failed many sentinel one show ?thesis by blast
qed

theorem refresh_status_cases_witness:
  "batchJobQueueRefreshStatusFunc (conn_describing []) ''q1'' [] =
     (Ok (RInt 42, ''DELETED'', None), [DescribeJobQueuesCall [Some ''q1'']])
   \<and> batchJobQueueRefreshStatusFunc conn_failing ''q1'' [] =
     (Ok (RNil, ''failed'', Some (ApiError ''ServerException'')), [DescribeJobQueuesCall [Some ''q1'']])
   \<and> batchJobQueueRefreshStatusFunc
       (conn_describing [q1_detail ''VALID'' [], q1_detail ''INVALID'' []]) ''q1'' [] =
     (Ok (RNil, ''failed'', Some (Errorf ''Multiple Job Queues with name %s'' [ArgString ''q1''])),
      [DescribeJobQueuesCall [Some ''q1'']])
   \<and> batchJobQueueRefreshStatusFunc (conn_describing [q1_detail ''UPDATING'' []]) ''q1'' [] =
     (Ok (RJobQueue (q1_detail ''UPDATING'' []), ''UPDATING'', None), [DescribeJobQueuesCall [Some ''q1'']])"
proof -
  have none: "batchJobQueueRefreshStatusFunc (conn_describing []) ''q1'' [] =
     (Ok (RInt 42, ''DELETED'', None), [DescribeJobQueuesCall [Some ''q1'']])"
    using refresh_status_cases [of "conn_describing []" "[]" "''q1''"]
    by (simp add: conn_describing_def JQStatusDeleted_def)
  have failed: "batchJobQueueRefreshStatusFunc conn_failing ''q1'' [] =
     (Ok (RNil, ''failed'', Some (ApiError ''ServerException'')), [DescribeJobQueuesCall [Some ''q1'']])"
    using refresh_status_cases [of conn_failing "[]" "''q1''" "ApiError ''ServerException''"]
    by (simp add: conn_failing_def conn_describing_def)
  have many: "batchJobQueueRefreshStatusFunc
       (conn_describing [q1_detail ''VALID'' [], q1_detail ''INVALID'' []]) ''q1'' [] =
     (Ok (RNil, ''failed'', Some (Errorf ''Multiple Job Queues with name %s'' [ArgString ''q1''])),
      [DescribeJobQueuesCall [Some ''q1'']])"
    using refresh_status_cases
      [of "conn_describing [q1_detail ''VALID'' [], q1_detail ''INVALID'' []]" "[]" "''q1''" _
        "[q1_detail ''VALID'' [], q1_detail ''INVALID'' []]"]
    by (simp add: conn_describing_def)
  have one: "batchJobQueueRefreshStatusFunc (conn_describing [q1_detail ''UPDATING'' []]) ''q1'' [] =
     (Ok (RJobQueue (q1_detail ''UPDATING'' []), ''UPDATING'', None), [DescribeJobQueuesCall [Some ''q1'']])"
    using refresh_status_cases
      [of "conn_describing [q1_detail ''UPDATING'' []]" "[]" "''q1''" _ _
        "q1_detail ''UPDATING'' []" "''UPDATING''"]
    by (simp add: conn_describing_def q1_detail_def)
  from none failed many one show ?thesis by blast
qed

subsection \<open>What Read writes\<close>

lemma Read_log:
  "snd (snd (resourceAwsBatchJobQueueRead meta d log)) = log @ [DescribeJobQueuesCall [Some (Id d)]]"
  using getJobQueue_log [of "batchconn meta" "Id d" log]
  by (cases "getJobQueue (batchconn meta) (Id d) log")
     (auto simp: resourceAwsBatchJobQueueRead_def Let_def split: result.splits option.splits prod.splits)

text \<open>
  For a queue that exists, the write under \<^verbatim>\<open>compute_environments\<close> is refused, since
  the schema declares no such attribute, and Read returns that error.
\<close>

lemma Read_existing_fails:
  assumes "on_DescribeJobQueues (batchconn meta) log [Some (Id d)] = Inr [jq]"
  shows "fst (resourceAwsBatchJobQueueRead meta d log) =
           Fail (Errorf ''error setting compute_environments: %s''
                   [ArgError (InvalidAddress ''compute_environments'')])"
  using assms
  by (simp add: resourceAwsBatchJobQueueRead_def getJobQueue_one Set_def
      resourceAwsBatchJobQueue_Schema_def)

text \<open>
  Claim C10. Read never writes the stored \<^verbatim>\<open>compute_environment_order\<close> attribute: what
  \<^verbatim>\<open>Set\<close> has written under that key, the prior state and the planned values are the
  same after Read as before, so the attribute reads the same; and the key
  \<^verbatim>\<open>compute_environments\<close>, under which Read writes the sorted names, is not declared in
  the schema of the resource.
\<close>

theorem Read_keeps_compute_environment_order:
  "rd_set (fst (snd (resourceAwsBatchJobQueueRead meta d log))) ''compute_environment_order'' =
     rd_set d ''compute_environment_order''
   \<and> rd_state (fst (snd (resourceAwsBatchJobQueueRead meta d log))) = rd_state d
   \<and> rd_diff (fst (snd (resourceAwsBatchJobQueueRead meta d log))) = rd_diff d
   \<and> Get (fst (snd (resourceAwsBatchJobQueueRead meta d log))) ''compute_environment_order'' =
     Get d ''compute_environment_order''
   \<and> map_of resourceAwsBatchJobQueue_Schema ''compute_environments'' = None"
proof -
  let ?d' = "fst (snd (resourceAwsBatchJobQueueRead meta d log))"
  have written: "rd_set ?d' ''compute_environment_order'' = rd_set d ''compute_environment_order''"
    by (simp add: resourceAwsBatchJobQueueRead_def Set_def SetId_def
        resourceAwsBatchJobQueue_Schema_def Let_def
        split: prod.splits result.splits option.splits)
  have state: "rd_state ?d' = rd_state d"
    by (simp add: resourceAwsBatchJobQueueRead_def Set_def SetId_def
        resourceAwsBatchJobQueue_Schema_def Let_def
        split: prod.splits result.splits option.splits)
  have diff: "rd_diff ?d' = rd_diff d"
    by (simp add: resourceAwsBatchJobQueueRead_def Set_def SetId_def
        resourceAwsBatchJobQueue_Schema_def Let_def
        split: prod.splits result.splits option.splits)
  have read: "Get ?d' ''compute_environment_order'' = Get d ''compute_environment_order''"
    using written state diff
    by (simp add: Get_def readField_def map_add_def resourceAwsBatchJobQueue_Schema_def)
  have undeclared: "map_of resourceAwsBatchJobQueue_Schema ''compute_environments'' = None"
    by (simp add: resourceAwsBatchJobQueue_Schema_def)
  from written state diff read undeclared show ?thesis by blast
qed

subsection \<open>Create\<close>

text \<open>
  Claim C2. The claim: for every valid spec, Create followed by Read yields an observed
  state whose mutable fields equal those of the spec. On the spec of the scenario
  (\<^verbatim>\<open>q1\<close>, priority 1, enabled, environments \<^verbatim>\<open>a\<close> with order 1 and \<^verbatim>\<open>b\<close> with order 0)
  Create panics while it builds the request, on the type assertion of the first order
  value, whatever the client and the service: no call is issued and nothing is read back.
\<close>

theorem Create_panics_on_scenario_spec:
  "resourceAwsBatchJobQueueCreate meta q1_spec log =
     (Panic (InterfaceConversion ''int64'' (VInt 1)), q1_spec, log)"
  by (simp add: resourceAwsBatchJobQueueCreate_def createJobQueueInput_def q1_spec_def Get_def
      readField_def resourceAwsBatchJobQueue_Schema_def map_add_def
      createComputeEnvironmentOrder_def envEntry_def andThen_simps index_def)

subsection \<open>The status poller\<close>

lemma pollStatus_log:
  assumes "Refresh conf = batchJobQueueRefreshStatusFunc conn sn"
  shows "\<exists>k. snd (pollStatus n conf log) = log @ replicate k (DescribeJobQueuesCall [Some sn])"
proof (induction n arbitrary: log)
  case 0
  have "snd (pollStatus 0 conf log) = log @ replicate 0 (DescribeJobQueuesCall [Some sn])"
    by simp
  then show ?case by blast
next
  case (Suc n)
  let ?c = "DescribeJobQueuesCall [Some sn]"
  obtain r log' where r: "Refresh conf log = (r, log')"
    by (cases "Refresh conf log")
  have log': "log' = log @ [?c]"
    using refresh_log [of conn sn log] r assms by simp
  obtain k where k: "snd (pollStatus n conf log') = log' @ replicate k ?c"
    using Suc.IH by blast
  have one: "log' = log @ replicate 1 ?c"
    using log' by simp
  have more: "log' @ replicate k ?c = log @ replicate (Suc k) ?c"
    using log' by (simp add: replicate_append_same)
  have "snd (pollStatus (Suc n) conf log) = log'
      \<or> snd (pollStatus (Suc n) conf log) = snd (pollStatus n conf log')"
    using r by (auto split: result.splits option.splits)
  then show ?case using one more k by metis
qed

text \<open>A wait that succeeds has seen a target status in its last fetch.\<close>

lemma pollStatus_Ok_target:
  "pollStatus n conf log = (Ok res, log') \<Longrightarrow>
   \<exists>log0 st. Refresh conf log0 = (Ok (res, st, None), log') \<and> st \<in> set (Target conf)"
proof (induction n arbitrary: log)
  case 0
  then show ?case by simp
next
  case (Suc n)
  obtain r log1 where r: "Refresh conf log = (r, log1)"
    by (cases "Refresh conf log")
  show ?case
  proof (cases r)
    case (Ok t)
    obtain res' st e where t: "t = (res', st, e)"
      by (cases t)
    show ?thesis
    proof (cases e)
      case None
      show ?thesis
      proof (cases "st \<in> set (Target conf)")
        case True
        with Suc.prems r Ok t None show ?thesis by auto
      next
        case False
        with Suc.prems r Ok t None have "pollStatus n conf log1 = (Ok res, log')"
          by (auto split: if_splits)
        then show ?thesis using Suc.IH by blast
      qed
    next
      case (Some a)
      with Suc.prems r Ok t show ?thesis by simp
    qed
  next
    case (Fail e)
    with Suc.prems r show ?thesis by simp
  next
    case (Panic p)
    with Suc.prems r show ?thesis by simp
  qed
qed



lemma disableStateChangeConf_attempts: "pollAttempts (disableStateChangeConf conn name) = 197"
  by (simp add: pollAttempts_def disableStateChangeConf_def Minute_def Second_def)

lemma deleteStateChangeConf_attempts: "pollAttempts (deleteStateChangeConf conn name) = 197"
  by (simp add: pollAttempts_def deleteStateChangeConf_def Minute_def Second_def)






subsection \<open>The order list that Read builds\<close>




subsection \<open>Delete\<close>

lemma issued_append: "issued log (log @ xs) = xs"
  by (simp add: issued_def)

lemma pollStatus_first_target:
  "Refresh conf log = (Ok (res, st, None), log') \<Longrightarrow> st \<in> set (Target conf) \<Longrightarrow> 0 < n \<Longrightarrow>
   pollStatus n conf log = (Ok res, log')"
  by (cases n) simp_all

lemma WaitForState_log:
  assumes "Refresh conf = batchJobQueueRefreshStatusFunc conn sn"
  shows "\<exists>k. snd (WaitForState conf log) = log @ replicate k (DescribeJobQueuesCall [Some sn])"
  unfolding WaitForState_def using assms by (rule pollStatus_log)

lemma disableBatchJobQueue_calls:
  "\<exists>k. snd (disableBatchJobQueue name conn log) =
     log @ UpdateJobQueueCall (disableInput name) # replicate k (DescribeJobQueuesCall [Some name])"
proof (cases "on_UpdateJobQueue conn log (disableInput name)")
  case (Some err)
  then have "snd (disableBatchJobQueue name conn log) =
      log @ UpdateJobQueueCall (disableInput name) # replicate 0 (DescribeJobQueuesCall [Some name])"
    by (simp add: disableBatchJobQueue_def UpdateJobQueue_def disableInput_def)
  then show ?thesis by blast
next
  case None
  let ?log1 = "log @ [UpdateJobQueueCall (disableInput name)]"
  have r: "Refresh (disableStateChangeConf conn name) = batchJobQueueRefreshStatusFunc conn name"
    by (simp add: disableStateChangeConf_def)
  obtain k where k: "snd (WaitForState (disableStateChangeConf conn name) ?log1) =
      ?log1 @ replicate k (DescribeJobQueuesCall [Some name])"
    using WaitForState_log [OF r] by blast
  have "snd (disableBatchJobQueue name conn log) = snd (WaitForState (disableStateChangeConf conn name) ?log1)"
    using None
    by (simp add: disableBatchJobQueue_def UpdateJobQueue_def disableInput_def
        split: prod.splits result.splits)
  then show ?thesis using k by auto
qed

lemma deleteBatchJobQueue_calls:
  "\<exists>k. snd (deleteBatchJobQueue name conn log) =
     log @ DeleteJobQueueCall (Some name) # replicate k (DescribeJobQueuesCall [Some name])"
proof (cases "on_DeleteJobQueue conn log (Some name)")
  case (Some err)
  then have "snd (deleteBatchJobQueue name conn log) =
      log @ DeleteJobQueueCall (Some name) # replicate 0 (DescribeJobQueuesCall [Some name])"
    by (simp add: deleteBatchJobQueue_def DeleteJobQueue_def)
  then show ?thesis by blast
next
  case None
  let ?log1 = "log @ [DeleteJobQueueCall (Some name)]"
  have r: "Refresh (deleteStateChangeConf conn name) = batchJobQueueRefreshStatusFunc conn name"
    by (simp add: deleteStateChangeConf_def)
  obtain k where k: "snd (WaitForState (deleteStateChangeConf conn name) ?log1) =
      ?log1 @ replicate k (DescribeJobQueuesCall [Some name])"
    using WaitForState_log [OF r] by blast
  have "snd (deleteBatchJobQueue name conn log) = snd (WaitForState (deleteStateChangeConf conn name) ?log1)"
    using None
    by (simp add: deleteBatchJobQueue_def DeleteJobQueue_def split: prod.splits result.splits)
  then show ?thesis using k by auto
qed

lemma disableBatchJobQueue_Ok_valid:
  assumes "disableBatchJobQueue name conn log = (Ok u, log1)"
  shows "\<exists>res log0. batchJobQueueRefreshStatusFunc conn name log0 = (Ok (res, JQStatusValid, None), log1)"
proof -
  obtain res where "WaitForState (disableStateChangeConf conn name)
        (log @ [UpdateJobQueueCall (disableInput name)]) = (Ok res, log1)"
    using assms
    by (auto simp: disableBatchJobQueue_def UpdateJobQueue_def disableInput_def
        split: prod.splits result.splits option.splits)
  then obtain log0 st where
    "Refresh (disableStateChangeConf conn name) log0 = (Ok (res, st, None), log1)"
    "st \<in> set (Target (disableStateChangeConf conn name))"
    unfolding WaitForState_def using pollStatus_Ok_target by blast
  then show ?thesis by (auto simp: disableStateChangeConf_def)
qed

text \<open>
  Claim C5. In every Delete (of a resource whose name is a string), if the disable phase
  fails, whether in its update call or in its wait, Delete returns that error wrapped as
  \<^verbatim>\<open>error disabling Batch Job Queue\<close> and has issued no delete call. And whenever
  Delete has issued a delete call, the disable phase returned without error before it:
  the calls of that phase hold no delete call, the last of them is a fetch that reported
  the status \<^verbatim>\<open>VALID\<close>, and the delete call comes right after it.
\<close>

theorem Delete_disables_first:
  assumes "Get d ''name'' = VString name"
  shows "(\<forall>err log1. disableBatchJobQueue name (batchconn meta) log = (Fail err, log1) \<longrightarrow>
            resourceAwsBatchJobQueueDelete meta d log =
              (Fail (Errorf ''error disabling Batch Job Queue (%s): %s'' [ArgString name, ArgError err]), log1)
            \<and> filter isDeleteJobQueueCall (issued log log1) = [])
       \<and> (filter isDeleteJobQueueCall (issued log (snd (resourceAwsBatchJobQueueDelete meta d log))) \<noteq> [] \<longrightarrow>
            (\<exists>log1 rest res log0.
               disableBatchJobQueue name (batchconn meta) log = (Ok (), log1)
               \<and> filter isDeleteJobQueueCall (issued log log1) = []
               \<and> batchJobQueueRefreshStatusFunc (batchconn meta) name log0 = (Ok (res, JQStatusValid, None), log1)
               \<and> snd (resourceAwsBatchJobQueueDelete meta d log) = log1 @ DeleteJobQueueCall (Some name) # rest))"
proof -
  let ?conn = "batchconn meta"
  obtain r1 log1 where dis: "disableBatchJobQueue name ?conn log = (r1, log1)"
    by (cases "disableBatchJobQueue name ?conn log")
  obtain k where k: "log1 = log @ UpdateJobQueueCall (disableInput name) # replicate k (DescribeJobQueuesCall [Some name])"
    using disableBatchJobQueue_calls [of name ?conn log] dis by auto
  have quiet: "filter isDeleteJobQueueCall (issued log log1) = []"
    unfolding k issued_append by simp
  have first: "\<forall>err log1'. disableBatchJobQueue name ?conn log = (Fail err, log1') \<longrightarrow>
            resourceAwsBatchJobQueueDelete meta d log =
              (Fail (Errorf ''error disabling Batch Job Queue (%s): %s'' [ArgString name, ArgError err]), log1')
            \<and> filter isDeleteJobQueueCall (issued log log1') = []"
    using assms dis quiet by (simp add: resourceAwsBatchJobQueueDelete_def)
  have second: "filter isDeleteJobQueueCall (issued log (snd (resourceAwsBatchJobQueueDelete meta d log))) \<noteq> [] \<longrightarrow>
            (\<exists>log1 rest res log0.
               disableBatchJobQueue name ?conn log = (Ok (), log1)
               \<and> filter isDeleteJobQueueCall (issued log log1) = []
               \<and> batchJobQueueRefreshStatusFunc ?conn name log0 = (Ok (res, JQStatusValid, None), log1)
               \<and> snd (resourceAwsBatchJobQueueDelete meta d log) = log1 @ DeleteJobQueueCall (Some name) # rest)"
  proof (cases r1)
    case (Ok u)
    obtain res log0 where v: "batchJobQueueRefreshStatusFunc ?conn name log0 = (Ok (res, JQStatusValid, None), log1)"
      using disableBatchJobQueue_Ok_valid dis Ok by blast
    obtain k' where k': "snd (deleteBatchJobQueue name ?conn log1) =
        log1 @ DeleteJobQueueCall (Some name) # replicate k' (DescribeJobQueuesCall [Some name])"
      using deleteBatchJobQueue_calls by blast
    have "snd (resourceAwsBatchJobQueueDelete meta d log) = snd (deleteBatchJobQueue name ?conn log1)"
      using assms dis Ok
      by (simp add: resourceAwsBatchJobQueueDelete_def split: prod.splits result.splits)
    then show ?thesis using dis Ok v k' quiet by auto
  next
    case (Fail e)
    then have "snd (resourceAwsBatchJobQueueDelete meta d log) = log1"
      using assms dis by (simp add: resourceAwsBatchJobQueueDelete_def)
    then show ?thesis using quiet by simp
  next
    case (Panic p)
    then have "snd (resourceAwsBatchJobQueueDelete meta d log) = log1"
      using assms dis by (simp add: resourceAwsBatchJobQueueDelete_def)
    then show ?thesis using quiet by simp
  qed
  from first second show ?thesis by blast
qed

lemma q1_stored_name: "Get q1_stored ''name'' = VString ''q1''"
  by (simp add: q1_stored_def Get_def readField_def map_add_def resourceAwsBatchJobQueue_Schema_def)

lemma disable_refused:
  "disableBatchJobQueue ''q1'' (batchconn (client conn_refusing)) [] =
     (Fail (ApiError ''ClientException''), [UpdateJobQueueCall (disableInput ''q1'')])"
  by (simp add: disableBatchJobQueue_def UpdateJobQueue_def disableInput_def client_def
      conn_refusing_def conn_describing_def)

lemma delete_lifecycle:
  "resourceAwsBatchJobQueueDelete (client conn_lifecycle) q1_stored [] =
     (Ok (), [UpdateJobQueueCall (disableInput ''q1''), DescribeJobQueuesCall [Some ''q1''],
              DeleteJobQueueCall (Some ''q1''), DescribeJobQueuesCall [Some ''q1'']])"
proof -
  let ?conn = "batchconn (client conn_lifecycle)"
  let ?u = "UpdateJobQueueCall (disableInput ''q1'')"
  let ?c = "DescribeJobQueuesCall [Some ''q1'']"
  have w1: "WaitForState (disableStateChangeConf ?conn ''q1'') [?u] = (Ok (RJobQueue (q1_detail ''VALID'' [])), [?u, ?c])"
    unfolding WaitForState_def disableStateChangeConf_attempts
    by (rule pollStatus_first_target [where st = "''VALID''"])
       (simp_all add: disableStateChangeConf_def batchJobQueueRefreshStatusFunc_def getJobQueue_def
         DescribeJobQueues_def client_def conn_lifecycle_def conn_describing_def q1_detail_def JQStatusValid_def)
  have w2: "WaitForState (deleteStateChangeConf ?conn ''q1'') [?u, ?c, DeleteJobQueueCall (Some ''q1'')] =
      (Ok (RInt 42), [?u, ?c, DeleteJobQueueCall (Some ''q1''), ?c])"
    unfolding WaitForState_def deleteStateChangeConf_attempts
    by (rule pollStatus_first_target [where st = "''DELETED''"])
       (simp_all add: deleteStateChangeConf_def batchJobQueueRefreshStatusFunc_def getJobQueue_def
         DescribeJobQueues_def client_def conn_lifecycle_def conn_describing_def JQStatusDeleted_def)
  have d1: "disableBatchJobQueue ''q1'' ?conn [] = (Ok (), [?u, ?c])"
    using w1 by (simp add: disableBatchJobQueue_def UpdateJobQueue_def disableInput_def client_def
      conn_lifecycle_def conn_describing_def)
  have d2: "deleteBatchJobQueue ''q1'' ?conn [?u, ?c] = (Ok (), [?u, ?c, DeleteJobQueueCall (Some ''q1''), ?c])"
    using w2 by (simp add: deleteBatchJobQueue_def DeleteJobQueue_def client_def
      conn_lifecycle_def conn_describing_def)
  show ?thesis
    using d1 d2 q1_stored_name by (simp add: resourceAwsBatchJobQueueDelete_def)
qed

theorem Delete_disables_first_witness:
  "resourceAwsBatchJobQueueDelete (client conn_refusing) q1_stored [] =
     (Fail (Errorf ''error disabling Batch Job Queue (%s): %s''
              [ArgString ''q1'', ArgError (ApiError ''ClientException'')]),
      [UpdateJobQueueCall (disableInput ''q1'')])
   \<and> filter isDeleteJobQueueCall (issued [] [UpdateJobQueueCall (disableInput ''q1'')]) = []
   \<and> resourceAwsBatchJobQueueDelete (client conn_lifecycle) q1_stored [] =
     (Ok (), [UpdateJobQueueCall (disableInput ''q1''), DescribeJobQueuesCall [Some ''q1''],
              DeleteJobQueueCall (Some ''q1''), DescribeJobQueuesCall [Some ''q1'']])"
  using Delete_disables_first [OF q1_stored_name, of "client conn_refusing" "[]"] disable_refused
    delete_lifecycle
  by blast

subsection \<open>Update\<close>

text \<open>
  The first key of the gate is not an attribute of the schema, so it never reports a
  change: the update call depends on \<^verbatim>\<open>priority\<close> and \<^verbatim>\<open>state\<close> alone.
\<close>

lemma HasChange_undeclared: "\<not> HasChange d ''compute_environments''"
  by (simp add: HasChange_def GetChange_def readField_def resourceAwsBatchJobQueue_Schema_def)

lemma Update_gate:
  "HasChanges d [''compute_environments'', ''priority'', ''state''] =
     (HasChange d ''priority'' \<or> HasChange d ''state'')"
  using HasChange_undeclared [of d] by simp

lemma Update_without_priority_or_state_change:
  assumes "\<not> HasChange d ''priority''" and "\<not> HasChange d ''state''"
  shows "updateJobQueueIfChanged meta d log = (Ok (), log)"
  using assms HasChange_undeclared [of d] by (simp add: updateJobQueueIfChanged_def)

lemma Update_tags_changed:
  assumes "HasChange d ''tags_all''" and "Get d ''arn'' = VString arn"
  shows "snd (updateTagsIfChanged meta d log) =
           log @ [BatchUpdateTagsCall arn (fst (GetChange d ''tags_all'')) (snd (GetChange d ''tags_all''))]"
  using assms by (simp add: updateTagsIfChanged_def BatchUpdateTags_def split: option.splits)

lemma Update_tags_unchanged:
  assumes "\<not> HasChange d ''tags_all''"
  shows "updateTagsIfChanged meta d log = (Ok (), log)"
  using assms by (simp add: updateTagsIfChanged_def)

lemma q1_order_changed_change:
  "GetChange q1_order_changed ''compute_environment_order'' =
     (VList [envEntry ''a'' 0], VList [envEntry ''b'' 0])"
  by (simp add: q1_order_changed_def q1_stored_def GetChange_def readField_def map_add_def
      resourceAwsBatchJobQueue_Schema_def)

lemma q1_order_changed_rest:
  "\<not> HasChange q1_order_changed ''priority'' \<and> \<not> HasChange q1_order_changed ''state''
   \<and> \<not> HasChange q1_order_changed ''tags_all''"
  by (simp add: q1_order_changed_def q1_stored_def HasChange_def GetChange_def readField_def map_add_def
      resourceAwsBatchJobQueue_Schema_def)

text \<open>
  Claim C1. The claim: Update issues the update call if and only if priority, enablement
  state or compute-environment order differs from the current state. On a plan that
  replaces environment \<^verbatim>\<open>a\<close> by environment \<^verbatim>\<open>b\<close> and changes nothing else, the
  attribute \<^verbatim>\<open>compute_environment_order\<close> has changed, and Update issues no update call:
  its only call is the describe call of the final Read.
\<close>

theorem Update_skips_order_change:
  "HasChange q1_order_changed ''compute_environment_order''
   \<and> GetChange q1_order_changed ''compute_environment_order'' =
       (VList [envEntry ''a'' 0], VList [envEntry ''b'' 0])
   \<and> snd (snd (resourceAwsBatchJobQueueUpdate meta q1_order_changed log)) =
       log @ [DescribeJobQueuesCall [Some ''arn:q1'']]
   \<and> filter isUpdateJobQueueCall
       (issued log (snd (snd (resourceAwsBatchJobQueueUpdate meta q1_order_changed log)))) = []"
proof -
  have change: "GetChange q1_order_changed ''compute_environment_order'' =
       (VList [envEntry ''a'' 0], VList [envEntry ''b'' 0])"
    by (rule q1_order_changed_change)
  then have differs: "HasChange q1_order_changed ''compute_environment_order''"
    by (simp add: HasChange_def envEntry_def)
  have gate: "updateJobQueueIfChanged meta q1_order_changed log = (Ok (), log)"
    using q1_order_changed_rest by (simp add: Update_without_priority_or_state_change)
  have tags: "updateTagsIfChanged meta q1_order_changed log = (Ok (), log)"
    using q1_order_changed_rest by (simp add: Update_tags_unchanged)
  have "resourceAwsBatchJobQueueUpdate meta q1_order_changed log =
      resourceAwsBatchJobQueueRead meta q1_order_changed log"
    using gate tags by (simp add: resourceAwsBatchJobQueueUpdate_def)
  then have calls: "snd (snd (resourceAwsBatchJobQueueUpdate meta q1_order_changed log)) =
       log @ [DescribeJobQueuesCall [Some ''arn:q1'']]"
    by (simp add: Read_log Id_def q1_order_changed_def q1_stored_def)
  then have none: "filter isUpdateJobQueueCall
       (issued log (snd (snd (resourceAwsBatchJobQueueUpdate meta q1_order_changed log)))) = []"
    by (simp add: issued_append)
  from differs change calls none show ?thesis by blast
qed

end
